theory Spec2Isabelle
  imports Main
begin

section \<open>JavaScript strings\<close>

text \<open>
  A JavaScript string is modelled as a HOL \<open>string\<close>, one \<open>char\<close> per code unit. The
  model is exact for text whose code units are below 256; \<open>toUpperCase\<close> is exact for the
  code units below 128 and leaves the others unchanged. The parser module of
  \<^verbatim>\<open>edifactParserGenerator.js\<close> is written inside a template literal. Its functions
  (\<open>detectDelimiters\<close>, \<open>parseEdifactToJson\<close>, \<open>explain\<close>, and \<open>baselineModule\<close> that
  holds them) are modelled from the text of that literal, its escapes read as the author
  wrote them (\<^verbatim>\<open>'\''\<close> is the apostrophe, \<^verbatim>\<open>/\r?\n/g\<close> matches an optional carriage
  return and a line feed): they say what the module is written to do. The module the
  generator emits has these escapes replaced and cannot be imported; that is the subject of
  the section on the emitted module text. The functions of the parseAndExplain tool
  (\<open>detectDelimsFromText\<close>, \<open>splitSegments\<close>, \<open>splitElements\<close>,
  \<open>baselineParseAndExplain\<close>) are plain source text and run as modelled.
\<close>

definition apostrophe :: char where
  "apostrophe = CHR 0x27"

definition isWhitespace :: "char \<Rightarrow> bool" where
  \<comment> \<open>the white space and line terminators that \<open>String.prototype.trim\<close> removes\<close>
  "isWhitespace c = (c = CHR 0x09 \<or> c = CHR 0x0A \<or> c = CHR 0x0B \<or> c = CHR 0x0C
     \<or> c = CHR 0x0D \<or> c = CHR 0x20 \<or> c = CHR 0xA0)"

definition trim :: "string \<Rightarrow> string" where
  "trim s = rev (dropWhile isWhitespace (rev (dropWhile isWhitespace s)))"

definition upperChar :: "char \<Rightarrow> char" where
  "upperChar c =
     (case map_of (zip ''abcdefghijklmnopqrstuvwxyz'' ''ABCDEFGHIJKLMNOPQRSTUVWXYZ'') c of
        Some u \<Rightarrow> u
      | None \<Rightarrow> c)"

definition toUpperCase :: "string \<Rightarrow> string" where
  "toUpperCase s = map upperChar s"

definition startsWith :: "string \<Rightarrow> string \<Rightarrow> bool" where
  "startsWith s p = (take (length p) s = p)"

definition slice :: "string \<Rightarrow> nat \<Rightarrow> nat \<Rightarrow> string" where
  \<comment> \<open>\<open>s.slice(a, b)\<close> for \<open>0 \<le> a \<le> b\<close>\<close>
  "slice s a b = take (b - a) (drop a s)"

fun stripNewlines :: "string \<Rightarrow> string" where
  \<comment> \<open>\<open>s.replace(/\r?\n/g, '')\<close>\<close>
  "stripNewlines [] = []"
| "stripNewlines (c # cs) =
     (if c = CHR 0x0A then stripNewlines cs
      else if c = CHR 0x0D then
        (case cs of
           [] \<Rightarrow> [c]
         | d # ds \<Rightarrow> if d = CHR 0x0A then stripNewlines ds else c # stripNewlines cs)
      else c # stripNewlines cs)"

section \<open>Delimiter resolver\<close>

record delimiters =
  componentSep :: char
  dataSep :: char
  releaseChar :: char
  segTerm :: char

definition defaultDelimiters :: delimiters where
  "defaultDelimiters =
     \<lparr>componentSep = CHR '':'', dataSep = CHR ''+'', releaseChar = CHR ''?'',
      segTerm = apostrophe\<rparr>"

text \<open>
  \<^verbatim>\<open>detectDelimsFromText\<close> (parseAndExplain tool) and \<^verbatim>\<open>detectDelimiters\<close> (generated
  parser module) consist of the same statements.
\<close>

definition detectDelimsFromText :: "string \<Rightarrow> delimiters" where
  "detectDelimsFromText text =
     (if startsWith text ''UNA'' then
        (let six = slice text 3 9 in
         if length six = 6 then
           \<lparr>componentSep = six ! 0, dataSep = six ! 1, releaseChar = six ! 3,
            segTerm = six ! 5\<rparr>
         else defaultDelimiters)
      else defaultDelimiters)"

definition detectDelimiters :: "string \<Rightarrow> delimiters" where
  "detectDelimiters text =
     (if startsWith text ''UNA'' then
        (let six = slice text 3 9 in
         if length six = 6 then
           \<lparr>componentSep = six ! 0, dataSep = six ! 1, releaseChar = six ! 3,
            segTerm = six ! 5\<rparr>
         else defaultDelimiters)
      else defaultDelimiters)"

definition pairwiseDistinct :: "delimiters \<Rightarrow> bool" where
  "pairwiseDistinct d = distinct [componentSep d, dataSep d, releaseChar d, segTerm d]"

section \<open>Segment tokenizer and element splitter\<close>

text \<open>
  The loops of \<^verbatim>\<open>splitSegments\<close> and \<^verbatim>\<open>splitElements\<close> carry the list built so
  far, the buffer \<open>cur\<close> and the flag \<open>released\<close>. Both functions appear with the same
  statements in the parseAndExplain tool and in the generated parser module.
\<close>

type_synonym scan_state = "string list \<times> string \<times> bool"

fun splitSegments_loop :: "char \<Rightarrow> char \<Rightarrow> scan_state \<Rightarrow> string \<Rightarrow> scan_state" where
  "splitSegments_loop t r st [] = st"
| "splitSegments_loop t r (segments, cur, released) (ch # rest) =
     (if released then splitSegments_loop t r (segments, cur @ [ch], False) rest
      else if ch = r then splitSegments_loop t r (segments, cur, True) rest
      else if ch = t then
        splitSegments_loop t r
          (if trim cur \<noteq> [] then segments @ [trim cur] else segments, [], False) rest
      else splitSegments_loop t r (segments, cur @ [ch], False) rest)"

definition splitSegments :: "string \<Rightarrow> char \<Rightarrow> char \<Rightarrow> string list" where
  "splitSegments text t r =
     (case splitSegments_loop t r ([], [], False) text of
        (segments, cur, released) \<Rightarrow>
          if trim cur \<noteq> [] then segments @ [trim cur] else segments)"

fun splitElements_loop :: "char \<Rightarrow> char \<Rightarrow> scan_state \<Rightarrow> string \<Rightarrow> scan_state" where
  "splitElements_loop sep r st [] = st"
| "splitElements_loop sep r (out, cur, released) (ch # rest) =
     (if released then splitElements_loop sep r (out, cur @ [ch], False) rest
      else if ch = r then splitElements_loop sep r (out, cur, True) rest
      else if ch = sep then splitElements_loop sep r (out @ [cur], [], False) rest
      else splitElements_loop sep r (out, cur @ [ch], False) rest)"

definition splitElements :: "string \<Rightarrow> char \<Rightarrow> char \<Rightarrow> string list" where
  "splitElements str sep r =
     (case splitElements_loop sep r ([], [], False) str of
        (out, cur, released) \<Rightarrow> out @ [cur])"

section \<open>Documents and structural errors\<close>

record raw_segment =
  tag :: string
  position :: nat
  elements :: "string list list"

record document =
  delimiters :: delimiters
  segments :: "raw_segment list"

text \<open>
  A structural error; \<open>errPosition\<close> and \<open>errValue\<close> are the source's \<^verbatim>\<open>position\<close>
  and \<^verbatim>\<open>value\<close>, \<open>errField\<close> its \<^verbatim>\<open>field\<close> (absent in the trailer error).
\<close>

record structural_error =
  code :: string
  message :: string
  segmentTag :: string
  errPosition :: nat
  errField :: "string option"
  errValue :: "string option"

record parse_result =
  json :: document
  errors :: "structural_error list"

datatype error = EMPTY_INPUT

fun errorMessage :: "error \<Rightarrow> string" where
  "errorMessage EMPTY_INPUT = ''EMPTY_INPUT''"

datatype jsvalue =
  JUndefined | JNull | JBoolean bool | JNumber int | JString string | JObject

fun truthy :: "jsvalue \<Rightarrow> bool" where
  "truthy JUndefined = False"
| "truthy JNull = False"
| "truthy (JBoolean b) = b"
| "truthy (JNumber n) = (n \<noteq> 0)"
| "truthy (JString s) = (s \<noteq> [])"
| "truthy JObject = True"

section \<open>Building the segment sequence\<close>

definition segmentsRaw :: "string \<Rightarrow> delimiters \<Rightarrow> string list" where
  \<comment> \<open>\<open>splitSegments(...).map(s => s.replace(/\r?\n/g, '').trim()).filter(Boolean)\<close>\<close>
  "segmentsRaw text d =
     filter (\<lambda>s. s \<noteq> [])
       (map (\<lambda>s. trim (stripNewlines s)) (splitSegments text (segTerm d) (releaseChar d)))"

definition toSegment :: "delimiters \<Rightarrow> nat \<Rightarrow> string \<Rightarrow> raw_segment" where
  \<comment> \<open>the body of the loop over the raw segments; \<open>pos\<close> is the value of \<open>++pos\<close>\<close>
  "toSegment d pos raw =
     (let tg = toUpperCase (slice raw 0 3);
          rest = drop 3 raw;
          elems = (if startsWith rest [dataSep d] then drop 1 rest else rest);
          data = map (\<lambda>e. splitElements e (componentSep d) (releaseChar d))
                   (splitElements elems (dataSep d) (releaseChar d))
      in \<lparr>tag = tg, position = pos, elements = data\<rparr>)"

fun segmentLoop :: "delimiters \<Rightarrow> nat \<Rightarrow> string list \<Rightarrow> raw_segment list" where
  "segmentLoop d pos [] = []"
| "segmentLoop d pos (raw # raws) = toSegment d (Suc pos) raw # segmentLoop d (Suc pos) raws"

definition findLast :: "('a \<Rightarrow> bool) \<Rightarrow> 'a list \<Rightarrow> 'a option" where
  "findLast P xs = find P (rev xs)"

definition firstComponent :: "string list list \<Rightarrow> nat \<Rightarrow> string option" where
  \<comment> \<open>\<open>(elements[i] || [])[0]\<close>; \<open>None\<close> is \<open>undefined\<close>\<close>
  "firstComponent es i =
     (if i < length es then (case es ! i of [] \<Rightarrow> None | c # cs \<Rightarrow> Some c) else None)"

section \<open>parseInt and Number.isFinite\<close>

definition isDigit :: "char \<Rightarrow> bool" where
  "isDigit c = (c \<in> set ''0123456789'')"

definition digitValue :: "char \<Rightarrow> int" where
  "digitValue c =
     (case map_of (zip ''0123456789'' [0, 1, 2, 3, 4, 5, 6, 7, 8, 9]) c of
        Some v \<Rightarrow> v
      | None \<Rightarrow> 0)"

definition parseInt10 :: "string \<Rightarrow> int option" where
  \<comment> \<open>\<open>parseInt(s, 10)\<close>; \<open>None\<close> is \<open>NaN\<close>\<close>
  "parseInt10 s =
     (let s1 = dropWhile isWhitespace s;
          neg = startsWith s1 ''-'';
          s2 = (if startsWith s1 ''-'' \<or> startsWith s1 ''+'' then drop 1 s1 else s1);
          ds = takeWhile isDigit s2
      in if ds = [] then None
         else Some ((if neg then - 1 else 1) * foldl (\<lambda>a c. 10 * a + digitValue c) 0 ds))"

definition numberIsFinite :: "int option \<Rightarrow> bool" where
  \<comment> \<open>\<open>Number.isFinite\<close> of the result of \<open>parseInt\<close>: an integer of magnitude
      \<open>2^1024 - 2^970\<close> or more is rounded to an infinite double\<close>
  "numberIsFinite v =
     (case v of None \<Rightarrow> False | Some n \<Rightarrow> \<bar>n\<bar> < 2 ^ 1024 - 2 ^ 970)"

section \<open>The generated parser module: parseEdifactToJson\<close>

text \<open>
  \<open>fmt\<close> is the message type the generator substitutes for \<^verbatim>\<open>${format}\<close> in the
  module text. The two checks of the function are \<open>headerCheck\<close> and \<open>trailerCheck\<close>;
  its \<^verbatim>\<open>lastUNZ\<close> is computed and not used.
\<close>

definition headerCheck :: "string \<Rightarrow> raw_segment list \<Rightarrow> structural_error list" where
  "headerCheck fmt segs =
     (case find (\<lambda>s. tag s = ''UNH'') segs of
        None \<Rightarrow> []
      | Some firstUNH \<Rightarrow>
          (case firstComponent (elements firstUNH) 2 of
             None \<Rightarrow> []
           | Some type \<Rightarrow>
               if type \<noteq> [] \<and> toUpperCase type \<noteq> fmt then
                 [\<lparr>code = ''FIELD_VALUE_MISMATCH'',
                   message = ''Message type must be '' @ fmt,
                   segmentTag = ''UNH'', errPosition = position firstUNH,
                   errField = Some ''S009.01'', errValue = Some type\<rparr>]
               else []))"

definition trailerCheck :: "raw_segment list \<Rightarrow> structural_error list" where
  "trailerCheck segs =
     (case findLast (\<lambda>s. tag s = ''UNT'') segs of
        None \<Rightarrow> []
      | Some lastUNT \<Rightarrow>
          (let cnt = parseInt10
                 (case firstComponent (elements lastUNT) 1 of None \<Rightarrow> [] | Some c \<Rightarrow> c)
           in if \<not> numberIsFinite cnt then
                [\<lparr>code = ''UNT_SEGMENT_COUNT_MISSING'',
                  message = ''UNT segment count missing or invalid'',
                  segmentTag = ''UNT'', errPosition = position lastUNT,
                  errField = None, errValue = None\<rparr>]
              else []))"

definition parseEdifactToJson :: "string \<Rightarrow> jsvalue \<Rightarrow> error + parse_result" where
  "parseEdifactToJson fmt edifactText =
     (case edifactText of
        JString text \<Rightarrow>
          if \<not> truthy edifactText then Inl EMPTY_INPUT
          else
            (let d = detectDelimiters text;
                 segs = segmentLoop d 0 (segmentsRaw text d)
             in Inr \<lparr>json = \<lparr>delimiters = d, segments = segs\<rparr>,
                     errors = headerCheck fmt segs @ trailerCheck segs\<rparr>)
      | _ \<Rightarrow> Inl EMPTY_INPUT)"

section \<open>Mapping tables and annotations\<close>

text \<open>
  A mapping entry and a segment mapping as the JSON has them. An absent \<^verbatim>\<open>name\<close>,
  \<^verbatim>\<open>description\<close>, \<^verbatim>\<open>segmentDescription\<close> or \<^verbatim>\<open>notes\<close> is the empty string and
  an absent \<^verbatim>\<open>codes\<close> or \<^verbatim>\<open>fields\<close> the empty list: the annotator reads each of them
  through \<^verbatim>\<open>||\<close> or \<^verbatim>\<open>?.\<close> and does not tell the two apart. \<open>segNotes\<close> and \<open>segFields\<close> are
  the source's \<^verbatim>\<open>notes\<close> and \<^verbatim>\<open>fields\<close>. A code is a pair of \<^verbatim>\<open>code\<close> and \<^verbatim>\<open>meaning\<close>.
\<close>

record mapping_entry =
  path :: string
  name :: string
  description :: string
  codes :: "(string \<times> string) list"

record segment_mapping =
  segmentDescription :: string
  segNotes :: string
  segFields :: "mapping_entry list"

type_synonym mapping_table = "(string \<times> segment_mapping) list"

text \<open>
  An annotated field and an annotated segment; the \<open>field...\<close> and \<open>as...\<close> selectors
  are the source's \<^verbatim>\<open>path\<close>, \<^verbatim>\<open>name\<close>, \<^verbatim>\<open>description\<close>, \<^verbatim>\<open>value\<close> and
  \<^verbatim>\<open>position\<close>, \<^verbatim>\<open>description\<close>, \<^verbatim>\<open>fields\<close>. \<open>explanations\<close> is the list under
  \<^verbatim>\<open>explanations.segments\<close>.
\<close>

record annotated_field =
  fieldPath :: string
  fieldName :: string
  fieldDescription :: "string option"
  fieldValue :: string

record annotated_segment =
  segment :: string
  asPosition :: nat
  asDescription :: string
  asFields :: "annotated_field list"

record explained = parse_result +
  explanations :: "annotated_segment list"

record baseline_explained = explained +
  format :: "string option"

definition fld :: "string \<Rightarrow> string \<Rightarrow> string \<Rightarrow> mapping_entry" where
  "fld p n d = \<lparr>path = p, name = n, description = d, codes = []\<rparr>"

function decimal :: "nat \<Rightarrow> string" where
  \<comment> \<open>\<open>String(n)\<close> for a non-negative integer\<close>
  "decimal n =
     (if n < 10 then [''0123456789'' ! n]
      else decimal (n div 10) @ [''0123456789'' ! (n mod 10)])"
  by pat_completeness auto
termination
  by (relation "measure id") auto

declare decimal.simps [simp del]

definition pad2 :: "nat \<Rightarrow> string" where
  \<comment> \<open>\<open>String(n+1).padStart(2, '0')\<close>\<close>
  "pad2 n = (let s = decimal (n + 1) in replicate (2 - length s) CHR ''0'' @ s)"

definition inheritedProperty :: "string \<Rightarrow> string option" where
  \<comment> \<open>the properties an object literal inherits from \<open>Object.prototype\<close>, as text\<close>
  "inheritedProperty q =
     (if q = ''__proto__'' then Some ''[object Object]''
      else if q = ''constructor'' then Some ''function Object() { [native code] }''
      else if q \<in> set [''__defineGetter__'', ''__defineSetter__'', ''hasOwnProperty'',
                ''__lookupGetter__'', ''__lookupSetter__'', ''isPrototypeOf'',
                ''propertyIsEnumerable'', ''toString'', ''valueOf'', ''toLocaleString'']
      then Some (''function '' @ q @ ''() { [native code] }'')
      else None)"

definition propertyOf :: "(string \<times> string) list \<Rightarrow> string \<Rightarrow> string option" where
  \<comment> \<open>\<open>table[q]\<close> on an object literal of strings; \<open>None\<close> is \<open>undefined\<close>\<close>
  "propertyOf table q =
     (case map_of table q of Some v \<Rightarrow> Some v | None \<Rightarrow> inheritedProperty q)"

definition codeMeaning :: "mapping_entry option \<Rightarrow> string \<Rightarrow> string" where
  \<comment> \<open>\<open>meta?.codes?.find?.(c => c.code === q)?.meaning\<close>; the empty string is \<open>undefined\<close>\<close>
  "codeMeaning meta q =
     (case meta of
        None \<Rightarrow> []
      | Some f \<Rightarrow> (case find (\<lambda>c. fst c = q) (codes f) of None \<Rightarrow> [] | Some c \<Rightarrow> snd c))"

definition qualifierHint :: "string \<Rightarrow> string \<Rightarrow> string \<Rightarrow> string" where
  \<comment> \<open>\<open>if (qDesc) description = description ? ... : ...\<close>\<close>
  "qualifierHint descr q qDesc =
     (if qDesc \<noteq> [] then
        (if descr \<noteq> [] then descr @ '' (qualifier '' @ q @ '': '' @ qDesc @ '')''
         else ''Qualifier '' @ q @ '': '' @ qDesc)
      else descr)"

section \<open>The generated parser module: explain\<close>

definition defaultMapping :: mapping_table where
  "defaultMapping =
     [(''UNH'', \<lparr>segmentDescription = ''Message header'', segNotes = [],
         segFields =
           [fld ''UNH/01/01'' ''Message reference number (0062)''
              ''Unique message reference assigned by the sender'',
            fld ''UNH/02/01'' ''Message type (0065)''
              ''Identifies the message type, e.g., APERAK'',
            fld ''UNH/02/02'' ''Version (0052)''
              ''Message version number'',
            fld ''UNH/02/03'' ''Release (0054)''
              ''Message release number'',
            fld ''UNH/02/04'' ''Controlling agency (0051)''
              ''Agency controlling the message, e.g., UN'',
            fld ''UNH/02/05'' ''Association assigned code (0057)''
              ''Code assigned by associations'']\<rparr>),
      (''BGM'', \<lparr>segmentDescription = ''Beginning of message'', segNotes = [],
         segFields =
           [fld ''BGM/01/01'' ''Document/message name, coded (1001)''
              ''Code identifying the document/message name'',
            fld ''BGM/02/01'' ''Document/message number (1004)''
              ''Identifier for the document/message'',
            fld ''BGM/03/01'' ''Message function, coded (1225)''
              ''Code indicating the function of the message'']\<rparr>),
      (''DTM'', \<lparr>segmentDescription = ''Date/time/period'', segNotes = [],
         segFields =
           [fld ''DTM/01/01'' ''Date/time/period qualifier (2005)''
              ''Qualifier specifying the type of date/time (e.g., 137=Document date/time, 171=Reference date/time)'',
            fld ''DTM/01/02'' ''Date/time/period (2380)''
              ''Date/time value formatted per 2379'',
            fld ''DTM/01/03'' ''Date/time/period format qualifier (2379)''
              ''Format qualifier for 2380 (e.g., 203=CCYYMMDDHHMM, 303=YYMMDDHHMM)'']\<rparr>),
      (''RFF'', \<lparr>segmentDescription = ''Reference'', segNotes = [],
         segFields =
           [fld ''RFF/01/01'' ''Reference qualifier (1153)''
              ''Specifies the type of reference (e.g., ON=Order, TN=Transaction, ACE=Account/Reference)'',
            fld ''RFF/01/02'' ''Reference number (1154)''
              ''Reference identifier value'',
            fld ''RFF/01/03'' ''Line number (1156)''
              ''Related line number, if applicable'',
            fld ''RFF/01/04'' ''Reference version identifier (4000)''
              ''Free-form reference description or version'']\<rparr>),
      (''NAD'', \<lparr>segmentDescription = ''Name and address'', segNotes = [],
         segFields =
           [fld ''NAD/01/01'' ''Party function code qualifier (3035)''
              ''Identifies the role of the party (e.g., MS=Message sender, MR=Message recipient)'',
            fld ''NAD/02/01'' ''Party id (3039)''
              ''Identifier of party'',
            fld ''NAD/02/02'' ''Code list qualifier (1131)''
              ''Code list reference, if any'',
            fld ''NAD/02/03'' ''Code list agency (3055)''
              ''Agency controlling the code list (e.g., 293)'']\<rparr>),
      (''UNB'', \<lparr>segmentDescription = ''Interchange header'', segNotes = [],
         segFields =
           [fld ''UNB/01/01'' ''Syntax identifier (0001)''
              ''EDIFACT syntax identifier, e.g., UNOC'',
            fld ''UNB/01/02'' ''Syntax version number (0002)''
              ''Version of the syntax, e.g., 3'',
            fld ''UNB/02/01'' ''Sender identification (0004)''
              ''Interchange sender ID'',
            fld ''UNB/02/02'' ''Partner identification code qualifier (0007)''
              ''Qualifier for sender ID'',
            fld ''UNB/03/01'' ''Recipient identification (0010)''
              ''Interchange recipient ID'',
            fld ''UNB/03/02'' ''Partner identification code qualifier (0007)''
              ''Qualifier for recipient ID'',
            fld ''UNB/04/01'' ''Date (0017)''
              ''Date of preparation (YYMMDD or CCYYMMDD depending on use)'',
            fld ''UNB/04/02'' ''Time (0019)''
              ''Time of preparation (HHMM)'',
            fld ''UNB/05/01'' ''Interchange control reference (0020)''
              ''Interchange control reference'']\<rparr>),
      (''UNT'', \<lparr>segmentDescription = ''Message trailer'', segNotes = [],
         segFields =
           [fld ''UNT/01/01'' ''Number of segments in a message (0074)''
              ''Segment count including UNH and UNT'',
            fld ''UNT/02/01'' ''Message reference number (0062)''
              ''Must match UNH reference number'']\<rparr>),
      (''UNZ'', \<lparr>segmentDescription = ''Interchange trailer'', segNotes = [],
         segFields =
           [fld ''UNZ/01/01'' ''Interchange control count (0036)''
              ''Number of messages or functional groups'',
            fld ''UNZ/02/01'' ''Interchange control reference (0020)''
              ''Must match UNB control reference'']\<rparr>)]"

definition qualifiers_DTM :: "(string \<times> string) list" where
  "qualifiers_DTM =
     [(''137'', ''Document/message date/time''),
      (''171'', ''Reference date/time''),
      (''163'', ''Delivery date/time, latest'')]"

definition qualifiers_RFF :: "(string \<times> string) list" where
  \<comment> \<open>source comment: Common reference qualifiers (examples; override via spec codes if available)\<close>
  "qualifiers_RFF =
     [(''ON'', ''Order number''),
      (''DQ'', ''Delivery note number''),
      (''ACE'', ''Reference (ACE)''),
      (''TN'', ''Transaction/reference number''),
      (''AGO'', ''Agreement/order reference'')]"

definition getFieldMeta :: "mapping_table \<Rightarrow> string \<Rightarrow> nat \<Rightarrow> nat \<Rightarrow> mapping_entry option" where
  \<comment> \<open>the first candidate; the branch for \<open>j == null\<close> is never taken, \<open>j\<close> being an index\<close>
  "getFieldMeta mapping tg i j =
     (case map_of mapping tg of
        None \<Rightarrow> None
      | Some m \<Rightarrow>
          find (\<lambda>f. path f \<noteq> [] \<and>
                  (path f = tg @ ''/'' @ pad2 i @ ''/'' @ pad2 j \<or>
                   path f = tg @ ''/'' @ decimal (i + 1) @ ''/'' @ decimal (j + 1)))
            (segFields m))"

definition explainField :: "mapping_table \<Rightarrow> string \<Rightarrow> nat \<Rightarrow> nat \<Rightarrow> string \<Rightarrow> annotated_field" where
  "explainField mapping tg i j val =
     (let meta = getFieldMeta mapping tg i j;
          nm = (case meta of
                  None \<Rightarrow> ''Component '' @ decimal (i + 1) @ ''.'' @ decimal (j + 1)
                | Some f \<Rightarrow>
                    if name f \<noteq> [] then name f
                    else ''Component '' @ decimal (i + 1) @ ''.'' @ decimal (j + 1));
          d0 = (case meta of None \<Rightarrow> [] | Some f \<Rightarrow> description f);
          q = trim val;
          d1 = (if tg = ''DTM'' \<and> j = 0 then
                  qualifierHint d0 q
                    (case propertyOf qualifiers_DTM q of
                       Some v \<Rightarrow> v
                     | None \<Rightarrow> codeMeaning meta q)
                else d0);
          d2 = (if tg = ''RFF'' \<and> j = 0 then
                  qualifierHint d1 q
                    (case propertyOf qualifiers_RFF q of
                       Some v \<Rightarrow> v
                     | None \<Rightarrow> codeMeaning meta q)
                else d1)
      in \<lparr>fieldPath = tg @ ''/'' @ pad2 i @ ''/'' @ pad2 j, fieldName = nm,
          fieldDescription = (if d2 \<noteq> [] then Some d2 else None), fieldValue = val\<rparr>)"

definition explainSegment :: "mapping_table \<Rightarrow> raw_segment \<Rightarrow> annotated_segment" where
  "explainSegment mapping s =
     (let segDesc =
            (case map_of mapping (tag s) of
               None \<Rightarrow> ''Segment '' @ tag s
             | Some m \<Rightarrow>
                 if segmentDescription m \<noteq> [] then segmentDescription m
                 else if segNotes m \<noteq> [] then segNotes m
                 else ''Segment '' @ tag s)
      in \<lparr>segment = tag s, asPosition = position s, asDescription = segDesc,
          asFields =
            concat (map (\<lambda>(i, comps). map (\<lambda>(j, val). explainField mapping (tag s) i j val)
                                         (enumerate 0 comps))
                      (enumerate 0 (elements s)))\<rparr>)"

definition explain :: "mapping_table \<Rightarrow> parse_result \<Rightarrow> explained" where
  \<comment> \<open>\<open>specMapping\<close> is the table the generator writes into the module text\<close>
  "explain specMapping parsed =
     (let mapping = (if specMapping \<noteq> [] then specMapping else defaultMapping)
      in \<lparr>json = json parsed, errors = errors parsed,
          explanations = map (explainSegment mapping) (segments (json parsed))\<rparr>)"

section \<open>The parseAndExplain tool: baselineParseAndExplain\<close>

definition defaultMap :: mapping_table where
  "defaultMap =
     [(''UNH'', \<lparr>segmentDescription = ''Message header'', segNotes = [],
         segFields =
           [fld ''UNH/01/01'' ''Message reference number (0062)''
              ''Sender-assigned message reference'',
            fld ''UNH/02/01'' ''Message type (0065)''
              ''Type, e.g., APERAK'',
            fld ''UNH/02/02'' ''Version (0052)''
              ''Message version'',
            fld ''UNH/02/03'' ''Release (0054)''
              ''Message release'',
            fld ''UNH/02/04'' ''Controlling agency (0051)''
              ''UN or others'',
            fld ''UNH/02/05'' ''Association assigned code (0057)''
              ''Association code'']\<rparr>),
      (''BGM'', \<lparr>segmentDescription = ''Beginning of message'', segNotes = [],
         segFields =
           [fld ''BGM/01/01'' ''Document/message name, coded (1001)''
              ''Identifies document/message'',
            fld ''BGM/02/01'' ''Document/message number (1004)''
              ''Document identifier'',
            fld ''BGM/03/01'' ''Message function, coded (1225)''
              ''Function of the message'']\<rparr>),
      (''DTM'', \<lparr>segmentDescription = ''Date/time/period'', segNotes = [],
         segFields =
           [fld ''DTM/01/01'' ''Date/time/period qualifier (2005)''
              ''137=Doc date/time, 171=Reference date/time'',
            fld ''DTM/01/02'' ''Date/time/period (2380)''
              ''Value per 2379'',
            fld ''DTM/01/03'' ''Format qualifier (2379)''
              ''203=CCYYMMDDHHMM, 303=YYMMDDHHMM'']\<rparr>),
      (''RFF'', \<lparr>segmentDescription = ''Reference'', segNotes = [],
         segFields =
           [fld ''RFF/01/01'' ''Reference qualifier (1153)''
              ''ON=Order, TN=Transaction, ACE=Account'',
            fld ''RFF/01/02'' ''Reference number (1154)''
              ''Reference identifier'',
            fld ''RFF/01/03'' ''Line number (1156)''
              ''Related line number'']\<rparr>),
      (''NAD'', \<lparr>segmentDescription = ''Name and address'', segNotes = [],
         segFields =
           [fld ''NAD/01/01'' ''Party function qualifier (3035)''
              ''MS=Sender, MR=Recipient'',
            fld ''NAD/02/01'' ''Party id (3039)''
              ''Party identifier'',
            fld ''NAD/02/02'' ''Code list qualifier (1131)''
              ''Qualifier for code list'',
            fld ''NAD/02/03'' ''Code list agency (3055)''
              ''e.g., 293'']\<rparr>),
      (''UNB'', \<lparr>segmentDescription = ''Interchange header'', segNotes = [],
         segFields =
           [fld ''UNB/01/01'' ''Syntax id (0001)''
              ''UNOC etc.'',
            fld ''UNB/01/02'' ''Syntax version (0002)''
              ''Version of syntax'',
            fld ''UNB/02/01'' ''Sender id (0004)''
              ''Interchange sender'',
            fld ''UNB/02/02'' ''Sender qualifier (0007)''
              ''Qualifier'',
            fld ''UNB/03/01'' ''Recipient id (0010)''
              ''Interchange recipient'',
            fld ''UNB/03/02'' ''Recipient qualifier (0007)''
              ''Qualifier'',
            fld ''UNB/04/01'' ''Date (0017)''
              ''YYMMDD/CCYYMMDD'',
            fld ''UNB/04/02'' ''Time (0019)''
              ''HHMM'',
            fld ''UNB/05/01'' ''Interchange control ref (0020)''
              ''Control reference'']\<rparr>),
      (''UNT'', \<lparr>segmentDescription = ''Message trailer'', segNotes = [],
         segFields =
           [fld ''UNT/01/01'' ''Segment count (0074)''
              ''Count incl. UNH and UNT'',
            fld ''UNT/02/01'' ''Message ref (0062)''
              ''Must match UNH ref'']\<rparr>),
      (''UNZ'', \<lparr>segmentDescription = ''Interchange trailer'', segNotes = [],
         segFields =
           [fld ''UNZ/01/01'' ''Message/group count (0036)''
              ''Number of messages/groups'',
            fld ''UNZ/02/01'' ''Interchange control ref (0020)''
              ''Must match UNB control ref'']\<rparr>)]"

definition baseline_qualifiers_DTM :: "(string \<times> string) list" where
  "baseline_qualifiers_DTM =
     [(''137'', ''Document/message date/time''),
      (''171'', ''Reference date/time'')]"

definition baseline_qualifiers_RFF :: "(string \<times> string) list" where
  "baseline_qualifiers_RFF =
     [(''ON'', ''Order number''),
      (''TN'', ''Transaction/reference number''),
      (''ACE'', ''Reference (ACE)''),
      (''AGO'', ''Agreement/order reference'')]"

definition baseline_getFieldMeta :: "string \<Rightarrow> nat \<Rightarrow> nat \<Rightarrow> mapping_entry option" where
  "baseline_getFieldMeta tg i j =
     (case map_of defaultMap tg of
        None \<Rightarrow> None
      | Some m \<Rightarrow> find (\<lambda>f. path f = tg @ ''/'' @ pad2 i @ ''/'' @ pad2 j) (segFields m))"

definition baseline_explainField :: "string \<Rightarrow> nat \<Rightarrow> nat \<Rightarrow> string \<Rightarrow> annotated_field" where
  "baseline_explainField tg i j val =
     (let meta = baseline_getFieldMeta tg i j;
          nm = (case meta of
                  None \<Rightarrow> ''Component '' @ decimal (i + 1) @ ''.'' @ decimal (j + 1)
                | Some f \<Rightarrow>
                    if name f \<noteq> [] then name f
                    else ''Component '' @ decimal (i + 1) @ ''.'' @ decimal (j + 1));
          d0 = (case meta of None \<Rightarrow> [] | Some f \<Rightarrow> description f);
          q = trim val;
          d1 = (if tg = ''DTM'' \<and> j = 0 then
                  qualifierHint d0 q
                    (case propertyOf baseline_qualifiers_DTM q of Some v \<Rightarrow> v | None \<Rightarrow> [])
                else d0);
          d2 = (if tg = ''RFF'' \<and> j = 0 then
                  qualifierHint d1 q
                    (case propertyOf baseline_qualifiers_RFF q of Some v \<Rightarrow> v | None \<Rightarrow> [])
                else d1)
      in \<lparr>fieldPath = tg @ ''/'' @ pad2 i @ ''/'' @ pad2 j, fieldName = nm,
          fieldDescription = (if d2 \<noteq> [] then Some d2 else None), fieldValue = val\<rparr>)"

definition baseline_explainSegment :: "raw_segment \<Rightarrow> annotated_segment" where
  "baseline_explainSegment s =
     (let segDesc =
            (case map_of defaultMap (tag s) of
               None \<Rightarrow> ''Segment '' @ tag s
             | Some m \<Rightarrow>
                 if segmentDescription m \<noteq> [] then segmentDescription m
                 else if segNotes m \<noteq> [] then segNotes m
                 else ''Segment '' @ tag s)
      in \<lparr>segment = tag s, asPosition = position s, asDescription = segDesc,
          asFields =
            concat (map (\<lambda>(i, comps). map (\<lambda>(j, val). baseline_explainField (tag s) i j val)
                                         (enumerate 0 comps))
                      (enumerate 0 (elements s)))\<rparr>)"

definition isMessageType :: "string \<Rightarrow> bool" where
  \<comment> \<open>\<open>/^[A-Z]{3,6}$/.test(type)\<close>\<close>
  "isMessageType s =
     (3 \<le> length s \<and> length s \<le> 6 \<and> list_all (\<lambda>c. c \<in> set ''ABCDEFGHIJKLMNOPQRSTUVWXYZ'') s)"

definition baselineParseAndExplain :: "string \<Rightarrow> string option \<Rightarrow> baseline_explained" where
  "baselineParseAndExplain text assumedFormat =
     (let d = detectDelimsFromText text;
          segs = segmentLoop d 0 (segmentsRaw text d);
          fm = (case find (\<lambda>s. tag s = ''UNH'') segs of
                  None \<Rightarrow> assumedFormat
                | Some firstUNH \<Rightarrow>
                    (case firstComponent (elements firstUNH) 1 of
                       None \<Rightarrow> assumedFormat
                     | Some type \<Rightarrow>
                         if type \<noteq> [] \<and> isMessageType type then Some (toUpperCase type)
                         else assumedFormat))
      in \<lparr>json = \<lparr>delimiters = d, segments = segs\<rparr>, errors = [],
          explanations = map baseline_explainSegment segs,
          format = (case fm of
                      None \<Rightarrow> assumedFormat
                    | Some f \<Rightarrow> if f \<noteq> [] then Some f else assumedFormat)\<rparr>)"

section \<open>Conformance tester\<close>

text \<open>
  The tester imports the module text and calls its two exports. A module is modelled by
  these two functions and by the message of the failures it raises; the two early returns
  of the tester are the first two outcomes of the import.
\<close>

record sample =
  sampleName :: string
  sampleText :: string

record test_result =
  resultName :: string
  ok :: bool
  resultError :: "string option"
  parsedSummary :: "string list option"

record 'e parser_module =
  moduleParse :: "jsvalue \<Rightarrow> 'e + parse_result"
  moduleExplain :: "parse_result \<Rightarrow> 'e + explained"
  failureMessage :: "'e \<Rightarrow> string"

datatype 'e import_outcome =
  ImportFailed string | MissingExports | Imported "'e parser_module"

record tester_output =
  success :: bool
  testerError :: "string option"
  results :: "test_result list"

fun replacePlusPlus :: "string \<Rightarrow> string" where
  \<comment> \<open>\<open>s.replace(/\+\+/g, '+?+')\<close>\<close>
  "replacePlusPlus (c # d # rest) =
     (if c = CHR ''+'' \<and> d = CHR ''+'' then ''+?+'' @ replacePlusPlus rest
      else c # replacePlusPlus (d # rest))"
| "replacePlusPlus s = s"

definition isLineTerminator :: "char \<Rightarrow> bool" where
  "isLineTerminator c = (c = CHR 0x0A \<or> c = CHR 0x0D)"

fun replaceLineStartUNH :: "bool \<Rightarrow> string \<Rightarrow> string" where
  \<comment> \<open>\<open>s.replace(/^UNH/gm, 'UXH')\<close>; the flag says that a line starts here\<close>
  "replaceLineStartUNH atStart (a # b # c # rest) =
     (if atStart \<and> a = CHR ''U'' \<and> b = CHR ''N'' \<and> c = CHR ''H''
      then ''UXH'' @ replaceLineStartUNH False rest
      else a # replaceLineStartUNH (isLineTerminator a) (b # c # rest))"
| "replaceLineStartUNH atStart (a # rest) = a # replaceLineStartUNH (isLineTerminator a) rest"
| "replaceLineStartUNH atStart [] = []"

definition glitch :: "string \<Rightarrow> string" where
  "glitch s = replaceLineStartUNH True (replacePlusPlus s)"

fun matchesAnywhere :: "string \<Rightarrow> string \<Rightarrow> bool" where
  \<comment> \<open>the test of a regular expression that is a literal \<open>p\<close>, on \<open>s\<close>\<close>
  "matchesAnywhere [] p = (p = [])"
| "matchesAnywhere (c # cs) p = (startsWith (c # cs) p \<or> matchesAnywhere cs p)"

definition detectionCodes :: "string list" where
  "detectionCodes =
     [''UNKNOWN_SEGMENT'', ''MALFORMED_SEGMENT_TAG'', ''INVALID_SEGMENT_TAG'',
      ''UNH_OUT_OF_SEQUENCE'', ''SEGMENT_OUT_OF_MESSAGE_SCOPE'']"

definition detected :: "structural_error list \<Rightarrow> bool" where
  "detected errs = list_ex (\<lambda>e. list_ex (\<lambda>k. matchesAnywhere (code e) k) detectionCodes) errs"

definition runSample :: "'e parser_module \<Rightarrow> sample \<Rightarrow> test_result" where
  "runSample m s =
     (case moduleParse m (JString (sampleText s)) of
        Inl e \<Rightarrow>
          \<lparr>resultName = sampleName s, ok = False, resultError = Some (failureMessage m e),
           parsedSummary = None\<rparr>
      | Inr parsed \<Rightarrow>
          (case moduleExplain m parsed of
             Inl e \<Rightarrow>
               \<lparr>resultName = sampleName s, ok = False,
                resultError = Some (failureMessage m e), parsedSummary = None\<rparr>
           | Inr explained \<Rightarrow>
               \<lparr>resultName = sampleName s, ok = True, resultError = None,
                parsedSummary = Some [''json'', ''errors'']\<rparr>))"

definition runMutated :: "'e parser_module \<Rightarrow> sample \<Rightarrow> test_result" where
  "runMutated m s =
     (case moduleParse m (JString (glitch (sampleText s))) of
        Inl e \<Rightarrow>
          \<lparr>resultName = sampleName s @ '' (mutated)'', ok = True, resultError = None,
           parsedSummary = None\<rparr>
      | Inr res \<Rightarrow>
          if detected (errors res) then
            \<lparr>resultName = sampleName s @ '' (mutated)'', ok = True, resultError = None,
             parsedSummary = None\<rparr>
          else
            \<lparr>resultName = sampleName s @ '' (mutated)'', ok = False,
             resultError = Some ''Parser did not detect malformed segment tag'',
             parsedSummary = None\<rparr>)"

definition createEdifactTester :: "'e import_outcome \<Rightarrow> sample list \<Rightarrow> tester_output" where
  "createEdifactTester imported samples =
     (case imported of
        ImportFailed msg \<Rightarrow>
          \<lparr>success = False, testerError = Some (''Module import failed: '' @ msg),
           results = []\<rparr>
      | MissingExports \<Rightarrow>
          \<lparr>success = False,
           testerError = Some ''Module does not export parseEdifactToJson and explain'',
           results = []\<rparr>
      | Imported m \<Rightarrow>
          (let rs = map (runSample m) samples @ map (runMutated m) (take 2 samples)
           in \<lparr>success = list_all ok rs, testerError = None, results = rs\<rparr>))"

definition baselineModule :: "string \<Rightarrow> mapping_table \<Rightarrow> error parser_module" where
  \<comment> \<open>the module the generator writes for \<open>BASELINE_PARSER=true\<close>, its escapes read as
      written; the emitted text is the outcome \<open>ImportFailed\<close> of the import\<close>
  "baselineModule fmt specMapping =
     \<lparr>moduleParse = parseEdifactToJson fmt,
      moduleExplain = (\<lambda>parsed. Inr (explain specMapping parsed)),
      failureMessage = errorMessage\<rparr>"

section \<open>Escaped positions, as the specification words them\<close>

text \<open>
  A character is escaped when the release characters immediately before it are odd in
  number: the last of them is not itself escaped. The unescaped separators of a string are
  the positions that hold the separator and are not escaped.
\<close>

definition spec_releaseRun :: "char \<Rightarrow> string \<Rightarrow> nat \<Rightarrow> nat" where
  "spec_releaseRun r s i = length (takeWhile (\<lambda>c. c = r) (rev (take i s)))"

definition spec_isEscaped :: "char \<Rightarrow> string \<Rightarrow> nat \<Rightarrow> bool" where
  "spec_isEscaped r s i = odd (spec_releaseRun r s i)"

definition spec_unescapedSeparators :: "char \<Rightarrow> char \<Rightarrow> string \<Rightarrow> nat list" where
  "spec_unescapedSeparators sep r s =
     filter (\<lambda>i. s ! i = sep \<and> \<not> spec_isEscaped r s i) [0..<length s]"

text \<open>
  Two readings of the scanning loops, used in the proofs: the flag \<open>released\<close> after a
  text, and the number of tokens the element loop closes on it.
\<close>

fun releasedAfter :: "char \<Rightarrow> bool \<Rightarrow> string \<Rightarrow> bool" where
  "releasedAfter r b [] = b"
| "releasedAfter r b (c # cs) = releasedAfter r (\<not> b \<and> c = r) cs"

fun splitCount :: "char \<Rightarrow> char \<Rightarrow> bool \<Rightarrow> string \<Rightarrow> nat" where
  "splitCount sep r b [] = 0"
| "splitCount sep r b (c # cs) =
     (if \<not> b \<and> c \<noteq> r \<and> c = sep then 1 else 0) + splitCount sep r (\<not> b \<and> c = r) cs"

section \<open>Sample texts\<close>

definition standardAdvice :: string where
  \<comment> \<open>the service string advice \<^verbatim>\<open>UNA:+.? '\<close>\<close>
  "standardAdvice = ''UNA:+.? '' @ [apostrophe]"

definition conformanceSample :: string where
  "conformanceSample =
     ''UNB+UNOC:3+S:R+R:S+250101:0101+REF'UNH+1+APERAK:D:07B:UN:2.1i'BGM+312+X'UNT+4+1'UNZ+1+REF''
       @ [apostrophe]"

definition multilineSample :: string where
  \<comment> \<open>the same interchange, one segment per line\<close>
  "multilineSample =
     ''UNB+UNOC:3+S:R+R:S+250101:0101+REF'' @ [apostrophe, CHR 0x0A] @
     ''UNH+1+APERAK:D:07B:UN:2.1i'' @ [apostrophe, CHR 0x0A] @
     ''BGM+312+X'' @ [apostrophe, CHR 0x0A] @
     ''UNT+4+1'' @ [apostrophe, CHR 0x0A] @
     ''UNZ+1+REF'' @ [apostrophe]"

definition ordersMessage :: string where
  \<comment> \<open>a message of type ORDERS\<close>
  "ordersMessage = ''UNH+1+ORDERS:D:07B:UN:2.1i'UNT+2+1'' @ [apostrophe]"

definition trailerWithCount :: string where
  \<comment> \<open>the trailer \<^verbatim>\<open>UNT+4+REF'\<close>: segment count 4, message reference REF\<close>
  "trailerWithCount = ''UNH+1+APERAK:D:07B:UN:2.1i'UNT+4+REF'' @ [apostrophe]"

definition trailerWithoutCount :: string where
  \<comment> \<open>the trailer \<^verbatim>\<open>UNT+X+1'\<close>: the segment count is not a number\<close>
  "trailerWithoutCount = ''UNH+1+APERAK:D:07B:UN:2.1i'UNT+X+1'' @ [apostrophe]"

definition specWithCodes :: mapping_table where
  \<comment> \<open>a synthesized table whose reference qualifier field carries a code list\<close>
  "specWithCodes =
     [(''RFF'', \<lparr>segmentDescription = ''Reference'', segNotes = [],
         segFields =
           [\<lparr>path = ''RFF/01/01'', name = ''Reference qualifier'',
             description = ''Type of reference'',
             codes = [(''ON'', ''Purchase order (spec)''), (''ZZZ'', ''Mutually defined'')]\<rparr>]\<rparr>)]"

section \<open>The module text as the generator emits it\<close>







section \<open>Properties of the scanning loops\<close>

lemma segments_loop_append:
  "splitSegments_loop t r st (xs @ ys) =
     splitSegments_loop t r (splitSegments_loop t r st xs) ys"
  by (induction t r st xs rule: splitSegments_loop.induct) auto

lemma elements_loop_append:
  "splitElements_loop sep r st (xs @ ys) =
     splitElements_loop sep r (splitElements_loop sep r st xs) ys"
  by (induction sep r st xs rule: splitElements_loop.induct) auto

lemma segments_loop_plain:
  "r \<notin> set xs \<Longrightarrow> t \<notin> set xs \<Longrightarrow>
     splitSegments_loop t r (segs, cur, False) xs = (segs, cur @ xs, False)"
  by (induction xs arbitrary: cur) auto

lemma elements_loop_plain:
  "r \<notin> set xs \<Longrightarrow> sep \<notin> set xs \<Longrightarrow>
     splitElements_loop sep r (out, cur, False) xs = (out, cur @ xs, False)"
  by (induction xs arbitrary: cur) auto

lemma trim_around:
  "\<not> isWhitespace c \<Longrightarrow>
     trim (xs @ c # ys) = dropWhile isWhitespace xs @ c # rev (dropWhile isWhitespace (rev ys))"
  by (simp add: trim_def dropWhile_append3)

lemma segments_loop_prefix:
  "splitSegments_loop t r (pre @ segs, cur, b) xs =
     (case splitSegments_loop t r (segs, cur, b) xs of (s', c', b') \<Rightarrow> (pre @ s', c', b'))"
  by (induction xs arbitrary: segs cur b) auto

lemma elements_loop_shape:
  "splitElements_loop sep r (out, cur, b) xs = (out', cur', b') \<Longrightarrow>
     length out' = length out + splitCount sep r b xs \<and> b' = releasedAfter r b xs"
proof (induction xs arbitrary: out cur b)
  case Nil
  then show ?case by simp
next
  case (Cons c cs)
  then show ?case by (auto split: if_splits)
qed

lemma releasedAfter_snoc:
  "releasedAfter r b (xs @ [c]) = (\<not> releasedAfter r b xs \<and> c = r)"
  by (induction xs arbitrary: b) auto

lemma splitCount_snoc:
  "splitCount sep r b (xs @ [c]) =
     splitCount sep r b xs + (if \<not> releasedAfter r b xs \<and> c \<noteq> r \<and> c = sep then 1 else 0)"
  by (induction xs arbitrary: b) auto

lemma releasedAfter_parity:
  "releasedAfter r False xs = odd (length (takeWhile (\<lambda>c. c = r) (rev xs)))"
  by (induction xs rule: rev_induct) (auto simp add: releasedAfter_snoc)

lemma escaped_at_end:
  "spec_isEscaped r (xs @ [c]) (length xs) = releasedAfter r False xs"
  by (simp add: spec_isEscaped_def spec_releaseRun_def releasedAfter_parity)

lemma splitCount_positions:
  "sep \<noteq> r \<Longrightarrow> splitCount sep r False s = length (spec_unescapedSeparators sep r s)"
proof (induction s rule: rev_induct)
  case Nil
  then show ?case by (simp add: spec_unescapedSeparators_def)
next
  case (snoc c xs)
  have same:
    "filter (\<lambda>i. (xs @ [c]) ! i = sep \<and> \<not> spec_isEscaped r (xs @ [c]) i) [0..<length xs] =
     filter (\<lambda>i. xs ! i = sep \<and> \<not> spec_isEscaped r xs i) [0..<length xs]"
    by (rule filter_cong) (auto simp add: nth_append spec_isEscaped_def spec_releaseRun_def)
  from snoc show ?case
    by (auto simp add: splitCount_snoc spec_unescapedSeparators_def same escaped_at_end)
qed

lemma splitElements_length:
  "sep \<noteq> r \<Longrightarrow>
     length (splitElements s sep r) = Suc (length (spec_unescapedSeparators sep r s))"
proof -
  assume ne: "sep \<noteq> r"
  obtain out cur b where l: "splitElements_loop sep r ([], [], False) s = (out, cur, b)"
    by (cases "splitElements_loop sep r ([], [], False) s") auto
  from elements_loop_shape [OF l] have "length out = splitCount sep r False s" by simp
  with l ne show ?thesis by (simp add: splitElements_def splitCount_positions)
qed

lemma splitElements_trailing:
  "sep \<noteq> r \<Longrightarrow> \<not> spec_isEscaped r (s @ [sep]) (length s) \<Longrightarrow>
     last (splitElements (s @ [sep]) sep r) = []"
proof -
  assume ne: "sep \<noteq> r" and un: "\<not> spec_isEscaped r (s @ [sep]) (length s)"
  obtain out cur b where l: "splitElements_loop sep r ([], [], False) s = (out, cur, b)"
    by (cases "splitElements_loop sep r ([], [], False) s") auto
  from elements_loop_shape [OF l] un have "b = False" by (simp add: escaped_at_end)
  with l ne show ?thesis by (simp add: splitElements_def elements_loop_append)
qed

section \<open>Properties of the segment sequence\<close>

lemma advice_scan:
  "splitSegments_loop apostrophe (CHR ''?'') ([], [], False) (standardAdvice @ rest) =
     splitSegments_loop apostrophe (CHR ''?'') ([''UNA:+.''], [], False) rest"
  by (simp add: standardAdvice_def apostrophe_def trim_def isWhitespace_def)

lemma advice_split:
  "splitSegments (standardAdvice @ rest) apostrophe (CHR ''?'') =
     ''UNA:+.'' # splitSegments rest apostrophe (CHR ''?'')"
  using segments_loop_prefix [of apostrophe "CHR ''?''" "[''UNA:+.'']" "[]" "[]" False rest]
  by (simp add: splitSegments_def advice_scan split: prod.splits)

lemma advice_delims: "detectDelimsFromText (standardAdvice @ rest) = defaultDelimiters"
  by (simp add: detectDelimsFromText_def standardAdvice_def startsWith_def slice_def
      defaultDelimiters_def apostrophe_def)

lemma segmentLoop_shift:
  "segmentLoop d (Suc p) raws = map (position_update Suc) (segmentLoop d p raws)"
  by (induction raws arbitrary: p) (auto simp add: toSegment_def Let_def)

lemma advice_segment:
  "toSegment defaultDelimiters (Suc 0) ''UNA:+.'' =
     \<lparr>tag = ''UNA'', position = 1, elements = [[[], []], [''.'']]\<rparr>"
  by (simp add: toSegment_def defaultDelimiters_def toUpperCase_def upperChar_def slice_def
      startsWith_def splitElements_def)

lemma advice_raw:
  "segmentsRaw (standardAdvice @ rest) defaultDelimiters =
     ''UNA:+.'' # segmentsRaw rest defaultDelimiters"
  by (simp add: segmentsRaw_def defaultDelimiters_def advice_split trim_def isWhitespace_def)

section \<open>Properties of the validator and the tester\<close>

lemma never_detected: "\<not> detected (headerCheck fmt segs @ trailerCheck segs)"
  by (simp add: detected_def headerCheck_def trailerCheck_def detectionCodes_def
      startsWith_def Let_def split: option.splits)

lemma replacePlusPlus_nonempty: "s \<noteq> [] \<Longrightarrow> replacePlusPlus s \<noteq> []"
  by (induction s rule: replacePlusPlus.induct) auto

lemma replaceLineStartUNH_nonempty: "s \<noteq> [] \<Longrightarrow> replaceLineStartUNH b s \<noteq> []"
  by (induction b s rule: replaceLineStartUNH.induct) auto

text \<open>
  The generated module reports none of the codes the tester looks for and fails on the empty
  text only: the mutated run of every sample with a non-empty text is recorded as not ok.
\<close>

lemma baseline_mutation_undetected:
  "sampleText s \<noteq> [] \<Longrightarrow> ok (runMutated (baselineModule fmt specMapping) s) = False"
proof -
  assume "sampleText s \<noteq> []"
  then have "glitch (sampleText s) \<noteq> []"
    by (simp add: glitch_def replacePlusPlus_nonempty replaceLineStartUNH_nonempty)
  then show ?thesis
    by (simp add: runMutated_def baselineModule_def parseEdifactToJson_def Let_def
        never_detected)
qed

section \<open>Conformance scenario\<close>

text \<open>
  C1. On the conformance sample the generated module tokenizes five segments, tagged
  \<^verbatim>\<open>UNB\<close>, \<^verbatim>\<open>UNH\<close>, \<^verbatim>\<open>BGM\<close>, \<^verbatim>\<open>UNT\<close>, \<^verbatim>\<open>UNZ\<close> at positions 1 to 5. The tester's
  mutation leaves the sample as it is, since its \<^verbatim>\<open>UNH\<close> does not start a line; the
  module reports no error for it, and the tester records the mutated run as not ok, so
  that the whole run fails.
\<close>

theorem conformance_sample_mutation_not_detected:
  "map_sum id (\<lambda>r. map (\<lambda>s. (tag s, position s)) (segments (json r)))
      (parseEdifactToJson ''APERAK'' (JString conformanceSample)) =
     Inr [(''UNB'', 1), (''UNH'', 2), (''BGM'', 3), (''UNT'', 4), (''UNZ'', 5)]
   \<and> glitch conformanceSample = conformanceSample
   \<and> runMutated (baselineModule ''APERAK'' [])
        \<lparr>sampleName = ''sample'', sampleText = conformanceSample\<rparr> =
       \<lparr>resultName = ''sample (mutated)'', ok = False,
        resultError = Some ''Parser did not detect malformed segment tag'',
        parsedSummary = None\<rparr>
   \<and> success (createEdifactTester (Imported (baselineModule ''APERAK'' []))
        [\<lparr>sampleName = ''sample'', sampleText = conformanceSample\<rparr>]) = False"
  by code_simp

text \<open>
  With one segment per line the mutation does turn \<^verbatim>\<open>UNH\<close> into \<^verbatim>\<open>UXH\<close>; the module
  still reports no error, and the mutated run is again recorded as not ok.
\<close>

lemma multiline_sample_mutation_not_detected:
  "map_sum id (\<lambda>r. (map tag (segments (json r)), errors r))
      (parseEdifactToJson ''APERAK'' (JString (glitch multilineSample))) =
     Inr ([''UNB'', ''UXH'', ''BGM'', ''UNT'', ''UNZ''], [])
   \<and> ok (runMutated (baselineModule ''APERAK'' [])
        \<lparr>sampleName = ''sample'', sampleText = multilineSample\<rparr>) = False"
  by code_simp

section \<open>Escaping\<close>

text \<open>
  The scanners on their own. In both a character that follows the release character is
  appended to the buffer as it is, whatever it is (terminator, separator, release
  character), and nothing is emitted. A text with one escaped character other than white
  space and no other release character or terminator is one segment, its body holding the
  escaped character between the trimmed text before and after it; with no other separator
  it is one element. The payload \<^verbatim>\<open>A?'B\<close> is tokenized as one segment and ends as
  \<^verbatim>\<open>A'B\<close> in one component.
\<close>

theorem escaping:
  "splitSegments_loop t r (segs, cur, False) (r # c # rest) =
     splitSegments_loop t r (segs, cur @ [c], False) rest
   \<and> splitElements_loop sep r (out, cur, False) (r # c # rest) =
     splitElements_loop sep r (out, cur @ [c], False) rest
   \<and> (r \<notin> set xs \<union> set ys \<and> t \<notin> set xs \<union> set ys \<and> \<not> isWhitespace c \<longrightarrow>
        splitSegments (xs @ r # c # ys) t r =
          [dropWhile isWhitespace xs @ c # rev (dropWhile isWhitespace (rev ys))])
   \<and> (r \<notin> set xs \<union> set ys \<and> sep \<notin> set xs \<union> set ys \<longrightarrow>
        splitElements (xs @ r # c # ys) sep r = [xs @ c # ys])
   \<and> map_sum id (\<lambda>r. segments (json r))
        (parseEdifactToJson fmt (JString (''UNH+A?'' @ [apostrophe] @ ''B'' @ [apostrophe]))) =
      Inr [\<lparr>tag = ''UNH'', position = 1, elements = [[''A'' @ [apostrophe] @ ''B'']]\<rparr>]"
proof -
  have example:
    "map_sum id (\<lambda>r. segments (json r))
        (parseEdifactToJson fmt (JString (''UNH+A?'' @ [apostrophe] @ ''B'' @ [apostrophe]))) =
      Inr [\<lparr>tag = ''UNH'', position = 1, elements = [[''A'' @ [apostrophe] @ ''B'']]\<rparr>]"
    by code_simp
  have step_segments:
    "splitSegments_loop t r (segs, cur, False) (r # c # rest) =
       splitSegments_loop t r (segs, cur @ [c], False) rest"
    by simp
  have step_elements:
    "splitElements_loop sep r (out, cur, False) (r # c # rest) =
       splitElements_loop sep r (out, cur @ [c], False) rest"
    by simp
  have one_segment:
    "r \<notin> set xs \<union> set ys \<and> t \<notin> set xs \<union> set ys \<and> \<not> isWhitespace c \<longrightarrow>
       splitSegments (xs @ r # c # ys) t r =
         [dropWhile isWhitespace xs @ c # rev (dropWhile isWhitespace (rev ys))]"
    by (simp add: splitSegments_def segments_loop_append segments_loop_plain trim_around)
  have one_element:
    "r \<notin> set xs \<union> set ys \<and> sep \<notin> set xs \<union> set ys \<longrightarrow>
       splitElements (xs @ r # c # ys) sep r = [xs @ c # ys]"
    by (simp add: splitElements_def elements_loop_append elements_loop_plain)
  from step_segments step_elements one_segment one_element example show ?thesis
    by blast
qed

theorem escaping_witness:
  "CHR ''?'' \<notin> set ''A'' \<union> set ''B'' \<and> apostrophe \<notin> set ''A'' \<union> set ''B''
   \<and> CHR ''+'' \<notin> set ''A'' \<union> set ''B'' \<and> \<not> isWhitespace apostrophe
   \<and> splitSegments (''A?'' @ [apostrophe] @ ''B'') apostrophe (CHR ''?'') =
       [''A'' @ [apostrophe] @ ''B'']
   \<and> splitElements ''A?+B'' (CHR ''+'') (CHR ''?'') = [''A+B'']"
  using escaping [of apostrophe "CHR ''?''" "[]" "[]" apostrophe "[]" "CHR ''+''" "[]"
      "''A''" "''B''" "[]"]
    escaping [of apostrophe "CHR ''?''" "[]" "[]" "CHR ''+''" "[]" "CHR ''+''" "[]"
      "''A''" "''B''" "[]"]
  by (simp add: apostrophe_def trim_def isWhitespace_def)

text \<open>
  C2. The program runs \<^verbatim>\<open>splitElements\<close> on the segment body that \<^verbatim>\<open>splitSegments\<close>
  returns, in which the release characters are gone already. In the document of
  \<^verbatim>\<open>baselineParseAndExplain\<close> the escaped terminator of \<^verbatim>\<open>UNH+A?'B'\<close> stays in one
  component, but the escaped data separator of \<^verbatim>\<open>UNH+A?+B'\<close> separates two elements, the
  escaped component separator of \<^verbatim>\<open>UNH+A?:B'\<close> separates two components, the escaped release
  character of \<^verbatim>\<open>UNH+A??B'\<close> is lost, and the one of \<^verbatim>\<open>UNH+A??+B'\<close> escapes the separator
  after it.
\<close>

theorem escaped_delimiters_split_in_document:
  "map elements (segments (json (baselineParseAndExplain
      (''UNH+A?'' @ [apostrophe] @ ''B'' @ [apostrophe]) None))) =
     [[[''A'' @ [apostrophe] @ ''B'']]]
   \<and> map elements (segments (json (baselineParseAndExplain
      (''UNH+A?+B'' @ [apostrophe]) None))) = [[[''A''], [''B'']]]
   \<and> map elements (segments (json (baselineParseAndExplain
      (''UNH+A?:B'' @ [apostrophe]) None))) = [[[''A'', ''B'']]]
   \<and> map elements (segments (json (baselineParseAndExplain
      (''UNH+A??B'' @ [apostrophe]) None))) = [[[''AB'']]]
   \<and> map elements (segments (json (baselineParseAndExplain
      (''UNH+A??+B'' @ [apostrophe]) None))) = [[[''A+B'']]]"
  by code_simp

text \<open>The text of the generated module does the same.\<close>

lemma release_scanned_twice:
  "map_sum id (\<lambda>r. map elements (segments (json r)))
      (parseEdifactToJson fmt (JString (''UNH+A?+B'' @ [apostrophe]))) = Inr [[[''A''], [''B'']]]
   \<and> map_sum id (\<lambda>r. map elements (segments (json r)))
      (parseEdifactToJson fmt (JString (''UNH+A??+B'' @ [apostrophe]))) = Inr [[[''A+B'']]]"
  by code_simp

section \<open>Empty placeholders\<close>

text \<open>
  C3. For a separator other than the release character, splitting a body yields one token
  more than the body has unescaped separators; a body that ends with an unescaped separator
  ends with an empty token; \<^verbatim>\<open>A++B\<close> yields three elements, the middle one empty.
\<close>

theorem empty_placeholder_preservation:
  assumes "sep \<noteq> r"
  shows "length (splitElements s sep r) = Suc (length (spec_unescapedSeparators sep r s))
     \<and> (\<not> spec_isEscaped r (s @ [sep]) (length s) \<longrightarrow>
          last (splitElements (s @ [sep]) sep r) = [])
     \<and> splitElements ''A++B'' (CHR ''+'') (CHR ''?'') = [''A'', [], ''B'']"
proof -
  have "splitElements ''A++B'' (CHR ''+'') (CHR ''?'') = [''A'', [], ''B'']"
    by (simp add: splitElements_def)
  with assms show ?thesis
    by (simp add: splitElements_length splitElements_trailing)
qed

theorem empty_placeholder_preservation_witness:
  "CHR ''+'' \<noteq> CHR ''?''
   \<and> spec_unescapedSeparators (CHR ''+'') (CHR ''?'') ''A++B'' = [1, 2]
   \<and> length (splitElements ''A++B'' (CHR ''+'') (CHR ''?'')) = 3
   \<and> \<not> spec_isEscaped (CHR ''?'') (''A+'' @ ''+'') (length ''A+'')
   \<and> last (splitElements (''A+'' @ ''+'') (CHR ''+'') (CHR ''?'')) = []"
proof -
  have ne: "CHR ''+'' \<noteq> CHR ''?''" by simp
  have seps: "spec_unescapedSeparators (CHR ''+'') (CHR ''?'') ''A++B'' = [1, 2]"
    by code_simp
  have un: "\<not> spec_isEscaped (CHR ''?'') (''A+'' @ ''+'') (length ''A+'')"
    by code_simp
  from empty_placeholder_preservation [OF ne, of "''A++B''"]
    empty_placeholder_preservation [OF ne, of "''A+''"] seps un ne
  show ?thesis by simp
qed

section \<open>Message type check\<close>

text \<open>
  C4. For the message \<^verbatim>\<open>UNH+1+ORDERS:D:07B:UN:2.1i'UNT+2+1'\<close> and the expected type
  \<^verbatim>\<open>APERAK\<close>, the header segment holds the type \<^verbatim>\<open>ORDERS\<close> as first component of its
  second element, and the module reports no error: it reads the third element, which the
  header does not have.
\<close>

theorem message_type_mismatch_not_reported:
  "map_sum id (\<lambda>r. (segments (json r), errors r))
     (parseEdifactToJson ''APERAK'' (JString ordersMessage)) =
   Inr ([\<lparr>tag = ''UNH'', position = 1,
          elements = [[''1''], [''ORDERS'', ''D'', ''07B'', ''UN'', ''2.1i'']]\<rparr>,
         \<lparr>tag = ''UNT'', position = 2, elements = [[''2''], [''1'']]\<rparr>], [])"
  by code_simp

section \<open>Trailer check\<close>

text \<open>
  C5. For the trailer \<^verbatim>\<open>UNT+4+REF'\<close>, whose segment count 4 is a number, the module reports
  \<^verbatim>\<open>UNT_SEGMENT_COUNT_MISSING\<close> at the trailer's position; for the trailer \<^verbatim>\<open>UNT+X+1'\<close>,
  whose segment count is not a number, it reports nothing: it reads the second element, the
  message reference.
\<close>

theorem trailer_count_read_from_reference:
  "map_sum id (\<lambda>r. (segments (json r), errors r))
     (parseEdifactToJson ''APERAK'' (JString trailerWithCount)) =
   Inr ([\<lparr>tag = ''UNH'', position = 1,
          elements = [[''1''], [''APERAK'', ''D'', ''07B'', ''UN'', ''2.1i'']]\<rparr>,
         \<lparr>tag = ''UNT'', position = 2, elements = [[''4''], [''REF'']]\<rparr>],
        [\<lparr>code = ''UNT_SEGMENT_COUNT_MISSING'',
          message = ''UNT segment count missing or invalid'',
          segmentTag = ''UNT'', errPosition = 2, errField = None, errValue = None\<rparr>])
   \<and> map_sum id errors (parseEdifactToJson ''APERAK'' (JString trailerWithoutCount)) = Inr []"
  by code_simp

section \<open>Qualifier codes\<close>

text \<open>
  C6. With a mapping table whose reference qualifier field lists the codes \<^verbatim>\<open>ON\<close> and
  \<^verbatim>\<open>ZZZ\<close>, the annotation of the qualifier \<^verbatim>\<open>ON\<close> appends the meaning of the built-in
  table, not the one of the code list; the code list is used for \<^verbatim>\<open>ZZZ\<close>, which the
  built-in table does not have.
\<close>

theorem builtin_qualifier_wins_over_codes:
  "map (\<lambda>a. map fieldDescription (asFields a))
     (explanations (explain specWithCodes
        \<lparr>json = \<lparr>delimiters = defaultDelimiters,
                  segments =
                    [\<lparr>tag = ''RFF'', position = 1, elements = [[''ON'', ''4711'']]\<rparr>,
                     \<lparr>tag = ''RFF'', position = 2, elements = [[''ZZZ'', ''4711'']]\<rparr>]\<rparr>,
         errors = []\<rparr>)) =
   [[Some ''Type of reference (qualifier ON: Order number)'', None],
    [Some ''Type of reference (qualifier ZZZ: Mutually defined)'', None]]"
  by code_simp

section \<open>Delimiter resolution\<close>

text \<open>
  C7. A text that starts with \<^verbatim>\<open>UNA\<close> and has six more characters resolves to the
  component separator, data separator, release character and segment terminator found at
  offsets 0, 1, 3 and 5 of those six characters (offsets 3, 4, 6 and 8 of the text); every
  other text resolves to the defaults \<^verbatim>\<open>: + ? '\<close>. The resolver of the generated module is
  the same function. Both are total: no input makes them fail.
\<close>

theorem delimiter_resolution:
  "detectDelimsFromText text =
     (if startsWith text ''UNA'' \<and> 9 \<le> length text then
        \<lparr>componentSep = text ! 3, dataSep = text ! 4, releaseChar = text ! 6,
         segTerm = text ! 8\<rparr>
      else \<lparr>componentSep = CHR '':'', dataSep = CHR ''+'', releaseChar = CHR ''?'',
             segTerm = CHR 0x27\<rparr>)
   \<and> detectDelimiters text = detectDelimsFromText text"
  by (auto simp add: detectDelimsFromText_def detectDelimiters_def slice_def
      defaultDelimiters_def apostrophe_def Let_def min_def)

theorem delimiter_resolution_witness:
  "detectDelimsFromText ''UNA*|.! ~UNB|X~'' =
     \<lparr>componentSep = CHR ''*'', dataSep = CHR ''|'', releaseChar = CHR ''!'',
      segTerm = CHR ''~''\<rparr>
   \<and> detectDelimsFromText ''UNA:+.?'' =
     \<lparr>componentSep = CHR '':'', dataSep = CHR ''+'', releaseChar = CHR ''?'',
      segTerm = CHR 0x27\<rparr>
   \<and> detectDelimiters ''UNB+X'' =
     \<lparr>componentSep = CHR '':'', dataSep = CHR ''+'', releaseChar = CHR ''?'',
      segTerm = CHR 0x27\<rparr>"
  using delimiter_resolution [of "''UNA*|.! ~UNB|X~''"] delimiter_resolution [of "''UNA:+.?''"]
    delimiter_resolution [of "''UNB+X''"]
  by (simp add: startsWith_def)

section \<open>Fatal input rejection\<close>

text \<open>
  The text of \<^verbatim>\<open>parseEdifactToJson\<close>, its escapes read as written, fails with
  \<^verbatim>\<open>EMPTY_INPUT\<close> exactly when its argument is not a non-empty string, and returns a
  document with the resolved delimiters and an error list on a non-empty string.
\<close>

lemma fatal_input_rejection:
  "(parseEdifactToJson fmt v = Inl EMPTY_INPUT) = (\<not> (\<exists>s. v = JString s \<and> s \<noteq> []))
   \<and> (\<exists>segs errs. parseEdifactToJson fmt (JString (c # cs)) =
         Inr \<lparr>json = \<lparr>delimiters = detectDelimiters (c # cs), segments = segs\<rparr>,
              errors = errs\<rparr>)"
  by (cases v) (auto simp add: parseEdifactToJson_def Let_def)


section \<open>Distinctness of the delimiters\<close>

text \<open>
  C9, as stated: the resolved delimiters are four pairwise distinct characters for every
  input text. A service string advice that repeats a character refutes it.
\<close>

theorem delimiters_distinct_counterexample:
  "\<not> pairwiseDistinct (detectDelimsFromText ''UNA+++++++UNB+X+'')"
  by (simp add: detectDelimsFromText_def startsWith_def slice_def pairwiseDistinct_def)

text \<open>
  C9, amended: the defaults are pairwise distinct; the delimiters resolved from a service
  string advice are pairwise distinct exactly when the advice characters at offsets 0, 1, 3
  and 5 are; the parse result carries the resolved delimiters unchanged.
\<close>

theorem delimiters_distinct_amended:
  "pairwiseDistinct defaultDelimiters
   \<and> pairwiseDistinct (detectDelimsFromText text) =
       (if startsWith text ''UNA'' \<and> 9 \<le> length text
        then distinct [text ! 3, text ! 4, text ! 6, text ! 8] else True)
   \<and> delimiters (json (baselineParseAndExplain text assumed)) = detectDelimsFromText text"
  by (auto simp add: detectDelimsFromText_def slice_def defaultDelimiters_def apostrophe_def
      pairwiseDistinct_def baselineParseAndExplain_def Let_def min_def)

theorem delimiters_distinct_amended_witness:
  "pairwiseDistinct (detectDelimsFromText ''UNA*|.! ~UNB|X~'')
   \<and> pairwiseDistinct (detectDelimsFromText ''UNB+X'')"
  using delimiters_distinct_amended [of "''UNA*|.! ~UNB|X~''"]
    delimiters_distinct_amended [of "''UNB+X''"]
  by (simp add: startsWith_def)

section \<open>The service string advice is kept\<close>

text \<open>
  C10, as stated: for every input that begins with the advice \<^verbatim>\<open>UNA:+.? '\<close>, the segments
  after the first are those of the input without the advice, one position up. A remaining
  text that itself begins with an advice declaring other delimiters refutes it.
\<close>

theorem advice_shift_counterexample:
  "segments (json (baselineParseAndExplain (standardAdvice @ ''UNA*|.! ~UNB|X~'') None)) \<noteq>
     \<lparr>tag = ''UNA'', position = 1, elements = [[[], []], [''.'']]\<rparr> #
       map (position_update Suc)
         (segments (json (baselineParseAndExplain ''UNA*|.! ~UNB|X~'' None)))"
  by code_simp

text \<open>
  C10, amended: for every input that begins with the advice \<^verbatim>\<open>UNA:+.? '\<close>, the first
  segment has tag \<^verbatim>\<open>UNA\<close>, position 1 and the elements that survive the escape scan; the
  segments after it are those of the remaining text under the default delimiters, one
  position up; they are those of the input without the advice, one position up, whenever
  the remaining text resolves to the default delimiters.
\<close>

theorem advice_kept_as_segment:
  "segments (json (baselineParseAndExplain (standardAdvice @ rest) assumed)) =
     \<lparr>tag = ''UNA'', position = 1, elements = [[[], []], [''.'']]\<rparr> #
       map (position_update Suc)
         (segmentLoop defaultDelimiters 0 (segmentsRaw rest defaultDelimiters))
   \<and> (detectDelimsFromText rest = defaultDelimiters \<longrightarrow>
        segments (json (baselineParseAndExplain (standardAdvice @ rest) assumed)) =
          \<lparr>tag = ''UNA'', position = 1, elements = [[[], []], [''.'']]\<rparr> #
            map (position_update Suc)
              (segments (json (baselineParseAndExplain rest assumed))))"
  by (simp add: baselineParseAndExplain_def Let_def advice_delims advice_raw advice_segment
      segmentLoop_shift)

theorem advice_kept_as_segment_witness:
  "detectDelimsFromText ordersMessage = defaultDelimiters
   \<and> segments (json (baselineParseAndExplain (standardAdvice @ ordersMessage) None)) =
      [\<lparr>tag = ''UNA'', position = 1, elements = [[[], []], [''.'']]\<rparr>,
       \<lparr>tag = ''UNH'', position = 2,
        elements = [[''1''], [''ORDERS'', ''D'', ''07B'', ''UN'', ''2.1i'']]\<rparr>,
       \<lparr>tag = ''UNT'', position = 3, elements = [[''2''], [''1'']]\<rparr>]"
proof -
  have d: "detectDelimsFromText ordersMessage = defaultDelimiters"
    by (simp add: detectDelimsFromText_def startsWith_def ordersMessage_def)
  have without:
    "segments (json (baselineParseAndExplain ordersMessage None)) =
       [\<lparr>tag = ''UNH'', position = 1,
         elements = [[''1''], [''ORDERS'', ''D'', ''07B'', ''UN'', ''2.1i'']]\<rparr>,
        \<lparr>tag = ''UNT'', position = 2, elements = [[''2''], [''1'']]\<rparr>]"
    by code_simp
  have shifted:
    "segments (json (baselineParseAndExplain (standardAdvice @ ordersMessage) None)) =
       \<lparr>tag = ''UNA'', position = 1, elements = [[[], []], [''.'']]\<rparr> #
         map (position_update Suc) (segments (json (baselineParseAndExplain ordersMessage None)))"
    using advice_kept_as_segment [of ordersMessage None] d by blast
  show ?thesis unfolding shifted without using d by simp
qed

end
